theory Spec2Isabelle
  imports
    Complex_Main
    "HOL-Library.Multiset"
    "HOL-Library.Char_ord"
    "HOL-Library.Option_ord"
    "HOL-Library.List_Lexorder"
    "HOL-Library.Product_Lexorder"
begin

section \<open>The transform stage of the sales ETL pipeline\<close>

text \<open>
  The development embeds \<^verbatim>\<open>SalesDataETL.transform_sales_data\<close> of
  \<^verbatim>\<open>src/Python/etl_pipeline.py\<close>. A pandas DataFrame is a list of rows in row order;
  where the code depends on the index labels of a frame (the arithmetic of line 147
  aligns two columns by label), the rows carry their label. A cell that pandas holds as
  null (\<^verbatim>\<open>None\<close>, \<^verbatim>\<open>NaN\<close>, \<^verbatim>\<open>NaT\<close>) is \<open>None\<close>. Decimal columns are
  read as \<open>real\<close>: the rounding of float64 is not modelled.
\<close>

subsection \<open>Data model\<close>

record date =
  d_year :: int
  d_month :: int
  d_day :: int

text \<open>
  A cell of the column \<^verbatim>\<open>transaction_date\<close>. Before line 141 it may hold text; a text
  cell is abstracted to what \<^verbatim>\<open>pd.to_datetime\<close> makes of it: \<open>Text (Some d)\<close> parses
  to the date \<open>d\<close>, \<open>Text None\<close> does not parse.
\<close>

datatype date_cell = NaT | Stamp date | Text "date option"

datatype error = ParseError

record transaction =
  transaction_id :: "int option"
  transaction_date :: date_cell
  product_id :: "int option"
  customer_id :: "int option"
  quantity_sold :: "int option"
  unit_price :: "real option"
  total_amount :: "real option"
  sales_rep_id :: "int option"
  region_id :: "int option"

record product =
  p_product_id :: "int option"
  product_name :: "string option"
  category_id :: "int option"
  category_name :: "string option"
  brand :: "string option"
  cost_price :: "real option"
  list_price :: "real option"

record customer =
  c_customer_id :: "int option"
  customer_name :: "string option"
  customer_type :: "string option"
  c_region_id :: "int option"
  region_name :: "string option"
  signup_date :: "date option"

record raw_data =
  sales :: "transaction list"
  products :: "product list"
  customers :: "customer list"

text \<open>A frame whose rows keep their index label.\<close>

type_synonym 'a frame = "(nat \<times> 'a) list"

text \<open>
  \<^verbatim>\<open>pd.read_sql\<close> gives a frame the labels \<open>0, 1, ..., n - 1\<close>, and
  \<^verbatim>\<open>.copy()\<close> keeps them (line 138).
\<close>

definition range_index :: "'a list \<Rightarrow> 'a frame" where
  "range_index xs = zip [0..<length xs] xs"

subsection \<open>Cleaner (lines 141 to 143)\<close>

fun to_datetime_cell :: "date_cell \<Rightarrow> error + date_cell" where
  "to_datetime_cell NaT = Inr NaT"
| "to_datetime_cell (Stamp d) = Inr (Stamp d)"
| "to_datetime_cell (Text None) = Inl ParseError"
| "to_datetime_cell (Text (Some d)) = Inr (Stamp d)"

text \<open>
  Line 141: the whole column is converted; one cell that does not parse raises, and the
  \<^verbatim>\<open>except\<close> of line 219 ends the transform.
\<close>

fun to_datetime :: "transaction frame \<Rightarrow> error + transaction frame" where
  "to_datetime [] = Inr []"
| "to_datetime ((i, t) # rs) =
     (case to_datetime_cell (transaction_date t) of
        Inl e \<Rightarrow> Inl e
      | Inr c \<Rightarrow>
          (case to_datetime rs of
             Inl e \<Rightarrow> Inl e
           | Inr rs' \<Rightarrow> Inr ((i, t\<lparr>transaction_date := c\<rparr>) # rs')))"

text \<open>Line 142: \<^verbatim>\<open>dropna(subset=['transaction_id', 'total_amount'])\<close>.\<close>

definition dropna :: "transaction frame \<Rightarrow> transaction frame" where
  "dropna df = filter (\<lambda>(i, t). transaction_id t \<noteq> None \<and> total_amount t \<noteq> None) df"

text \<open>Line 143: the mask \<^verbatim>\<open>total_amount > 0\<close> is false at a null cell.\<close>

definition positive_amount :: "transaction \<Rightarrow> bool" where
  "positive_amount t = (case total_amount t of None \<Rightarrow> False | Some a \<Rightarrow> 0 < a)"

definition filter_positive :: "transaction frame \<Rightarrow> transaction frame" where
  "filter_positive df = filter (\<lambda>(i, t). positive_amount t) df"

definition cleaner :: "transaction frame \<Rightarrow> error + transaction frame" where
  "cleaner df =
     (case to_datetime df of
        Inl e \<Rightarrow> Inl e
      | Inr df' \<Rightarrow> Inr (filter_positive (dropna df')))"

subsection \<open>Feature deriver (lines 146 to 152)\<close>

text \<open>Arithmetic of two cells: null if either is.\<close>

definition mul_cell :: "real option \<Rightarrow> real option \<Rightarrow> real option" where
  "mul_cell a b =
     (case a of None \<Rightarrow> None
      | Some x \<Rightarrow> (case b of None \<Rightarrow> None | Some y \<Rightarrow> Some (x * y)))"

definition sub_cell :: "real option \<Rightarrow> real option \<Rightarrow> real option" where
  "sub_cell a b =
     (case a of None \<Rightarrow> None
      | Some x \<Rightarrow> (case b of None \<Rightarrow> None | Some y \<Rightarrow> Some (x - y)))"

definition quantity_cell :: "transaction \<Rightarrow> real option" where
  "quantity_cell t = map_option real_of_int (quantity_sold t)"

text \<open>
  Line 147 multiplies the column \<^verbatim>\<open>sales_df['quantity_sold']\<close> by the column
  \<^verbatim>\<open>self.raw_data['products']['cost_price']\<close>. pandas aligns the two by index label:
  the sale labelled \<open>i\<close> meets the row labelled \<open>i\<close> of the product table, which
  has the labels \<open>0, ..., length ps - 1\<close>; a label the product table lacks gives null.
\<close>

definition cost_price_at :: "product list \<Rightarrow> nat \<Rightarrow> real option" where
  "cost_price_at ps i = (if i < length ps then cost_price (ps ! i) else None)"

fun dt_year :: "date_cell \<Rightarrow> int option" where
  "dt_year (Stamp d) = Some (d_year d)"
| "dt_year _ = None"

fun dt_month :: "date_cell \<Rightarrow> int option" where
  "dt_month (Stamp d) = Some (d_month d)"
| "dt_month _ = None"

fun dt_quarter :: "date_cell \<Rightarrow> int option" where
  "dt_quarter (Stamp d) = Some ((d_month d - 1) div 3 + 1)"
| "dt_quarter _ = None"

text \<open>
  A row after line 152. The columns \<^verbatim>\<open>day_of_week\<close> and \<^verbatim>\<open>week_of_year\<close> are
  left out: nothing below reads them.
\<close>

record derived =
  sale :: transaction
  revenue :: "real option"
  profit_margin :: "real option"
  year :: "int option"
  month :: "int option"
  quarter :: "int option"

definition derive_row :: "product list \<Rightarrow> nat \<times> transaction \<Rightarrow> derived" where
  "derive_row ps r =
     (case r of (i, t) \<Rightarrow>
        \<lparr>sale = t,
         revenue = mul_cell (quantity_cell t) (unit_price t),
         profit_margin =
           sub_cell (total_amount t) (mul_cell (quantity_cell t) (cost_price_at ps i)),
         year = dt_year (transaction_date t),
         month = dt_month (transaction_date t),
         quarter = dt_quarter (transaction_date t)\<rparr>)"

definition feature_deriver :: "transaction frame \<Rightarrow> product list \<Rightarrow> derived list" where
  "feature_deriver df ps = map (derive_row ps) df"

subsection \<open>Joiner (lines 155 to 166)\<close>

text \<open>
  \<^verbatim>\<open>merge(..., how='left')\<close>: the rows of the left frame in their order, each once per
  matching row of the right frame, in the right frame's order, or once with null
  columns when none matches. pandas matches a null key with a null key. The columns of
  the matched row are kept as the row itself; \<open>None\<close> stands for all of them null.
\<close>

definition merge_left :: "('a \<Rightarrow> 'k) \<Rightarrow> ('b \<Rightarrow> 'k) \<Rightarrow> 'a list \<Rightarrow> 'b list \<Rightarrow> ('a \<times> 'b option) list" where
  "merge_left kl kr ls rs =
     concat (map (\<lambda>l.
       (case filter (\<lambda>r. kr r = kl l) rs of
          [] \<Rightarrow> [(l, None)]
        | ms \<Rightarrow> map (\<lambda>r. (l, Some r)) ms)) ls)"

record enriched =
  base :: derived
  matched_product :: "product option"
  matched_customer :: "customer option"

definition joiner :: "derived list \<Rightarrow> product list \<Rightarrow> customer list \<Rightarrow> enriched list" where
  "joiner ds ps cs =
     map (\<lambda>((d, p), c). \<lparr>base = d, matched_product = p, matched_customer = c\<rparr>)
       (merge_left (\<lambda>(d, p). customer_id (sale d)) c_customer_id
          (merge_left (\<lambda>d. product_id (sale d)) p_product_id ds ps) cs)"

text \<open>The columns of the joined frame that the aggregations read.\<close>

definition e_product_name :: "enriched \<Rightarrow> string option" where
  "e_product_name e = (case matched_product e of None \<Rightarrow> None | Some p \<Rightarrow> product_name p)"

definition e_category_name :: "enriched \<Rightarrow> string option" where
  "e_category_name e = (case matched_product e of None \<Rightarrow> None | Some p \<Rightarrow> category_name p)"

definition e_region_name :: "enriched \<Rightarrow> string option" where
  "e_region_name e = (case matched_customer e of None \<Rightarrow> None | Some c \<Rightarrow> region_name c)"

definition sales_enhanced :: "raw_data \<Rightarrow> error + enriched list" where
  "sales_enhanced raw =
     (case cleaner (range_index (sales raw)) of
        Inl e \<Rightarrow> Inl e
      | Inr df \<Rightarrow> Inr (joiner (feature_deriver df (products raw)) (products raw) (customers raw)))"

subsection \<open>Aggregator (lines 172 to 201)\<close>

text \<open>\<^verbatim>\<open>sum\<close> skips null cells; \<^verbatim>\<open>count\<close> counts the cells that are not null.\<close>

fun nansum :: "('a::monoid_add) option list \<Rightarrow> 'a" where
  "nansum [] = 0"
| "nansum (None # xs) = nansum xs"
| "nansum (Some x # xs) = x + nansum xs"

definition count_cells :: "'a option list \<Rightarrow> nat" where
  "count_cells xs = length (filter (\<lambda>x. x \<noteq> None) xs)"

text \<open>
  \<^verbatim>\<open>groupby\<close> with its defaults (\<^verbatim>\<open>sort=True, dropna=True\<close>): a row whose key has a
  null part belongs to no group; the groups come in ascending key order. \<open>key\<close> gives
  a row's key, \<open>None\<close> when a part of it is null.
\<close>

definition group_keys :: "('a \<Rightarrow> ('k::linorder) option) \<Rightarrow> 'a list \<Rightarrow> 'k list" where
  "group_keys key rows = sort (remdups (List.map_filter key rows))"

definition group_rows :: "('a \<Rightarrow> 'k option) \<Rightarrow> 'a list \<Rightarrow> 'k \<Rightarrow> 'a list" where
  "group_rows key rows k = filter (\<lambda>r. key r = Some k) rows"

definition monthly_key :: "enriched \<Rightarrow> (int \<times> int \<times> string) option" where
  "monthly_key e =
     (case year (base e) of None \<Rightarrow> None
      | Some y \<Rightarrow>
          (case month (base e) of None \<Rightarrow> None
           | Some m \<Rightarrow>
               (case e_region_name e of None \<Rightarrow> None
                | Some r \<Rightarrow> Some (y, m, r))))"

record monthly_row =
  m_year :: "int option"
  m_month :: "int option"
  m_region :: "string option"
  m_revenue :: real
  m_total_sales :: real
  m_units_sold :: int
  m_transaction_count :: nat

definition monthly_group :: "enriched list \<Rightarrow> int \<times> int \<times> string \<Rightarrow> monthly_row" where
  "monthly_group es k =
     (let g = group_rows monthly_key es k in
      \<lparr>m_year = Some (fst k),
       m_month = Some (fst (snd k)),
       m_region = Some (snd (snd k)),
       m_revenue = nansum (map (\<lambda>e. revenue (base e)) g),
       m_total_sales = nansum (map (\<lambda>e. total_amount (sale (base e))) g),
       m_units_sold = nansum (map (\<lambda>e. quantity_sold (sale (base e))) g),
       m_transaction_count = count_cells (map (\<lambda>e. transaction_id (sale (base e))) g)\<rparr>)"

definition monthly_revenue :: "enriched list \<Rightarrow> monthly_row list" where
  "monthly_revenue es = map (monthly_group es) (group_keys monthly_key es)"

definition product_key :: "enriched \<Rightarrow> (string \<times> string) option" where
  "product_key e =
     (case e_category_name e of None \<Rightarrow> None
      | Some c \<Rightarrow> (case e_product_name e of None \<Rightarrow> None | Some p \<Rightarrow> Some (c, p)))"

record product_row =
  pp_category_name :: "string option"
  pp_product_name :: "string option"
  pp_revenue :: real
  pp_quantity_sold :: int
  pp_profit_margin :: real

definition product_group :: "enriched list \<Rightarrow> string \<times> string \<Rightarrow> product_row" where
  "product_group es k =
     (let g = group_rows product_key es k in
      \<lparr>pp_category_name = Some (fst k),
       pp_product_name = Some (snd k),
       pp_revenue = nansum (map (\<lambda>e. revenue (base e)) g),
       pp_quantity_sold = nansum (map (\<lambda>e. quantity_sold (sale (base e))) g),
       pp_profit_margin = nansum (map (\<lambda>e. profit_margin (base e)) g)\<rparr>)"

text \<open>Lines 183 to 187: the groups, before line 188 sorts them.\<close>

definition product_groups :: "enriched list \<Rightarrow> product_row list" where
  "product_groups es = map (product_group es) (group_keys product_key es)"

text \<open>
  Line 188: \<^verbatim>\<open>sort_values('revenue', ascending=False)\<close> names one column and leaves
  \<^verbatim>\<open>kind\<close> at its default \<^verbatim>\<open>'quicksort'\<close>, which pandas documents as not stable.
  What the call promises is a rearrangement of the rows with revenue descending; where
  rows tie, their order is the sorting routine's. The call is therefore a relation
  between the frame and its possible results.
\<close>

definition revenue_descending :: "product_row list \<Rightarrow> bool" where
  "revenue_descending rs = sorted_wrt (\<lambda>a b. pp_revenue b \<le> pp_revenue a) rs"

definition sort_values_revenue :: "product_row list \<Rightarrow> product_row list \<Rightarrow> bool" where
  "sort_values_revenue rs out = (mset out = mset rs \<and> revenue_descending out)"

definition product_performance :: "enriched list \<Rightarrow> product_row list \<Rightarrow> bool" where
  "product_performance es out = sort_values_revenue (product_groups es) out"

text \<open>Dates in calendar order, for \<^verbatim>\<open>min\<close> and \<^verbatim>\<open>max\<close> of lines 193 to 197.\<close>

definition date_le :: "date \<Rightarrow> date \<Rightarrow> bool" where
  "date_le a b = ((d_year a, d_month a, d_day a) \<le> (d_year b, d_month b, d_day b))"

fun stamps :: "date_cell list \<Rightarrow> date list" where
  "stamps [] = []"
| "stamps (Stamp d # cs) = d # stamps cs"
| "stamps (_ # cs) = stamps cs"

fun min_date :: "date list \<Rightarrow> date option" where
  "min_date [] = None"
| "min_date (d # ds) =
     (case min_date ds of None \<Rightarrow> Some d
      | Some m \<Rightarrow> Some (if date_le d m then d else m))"

fun max_date :: "date list \<Rightarrow> date option" where
  "max_date [] = None"
| "max_date (d # ds) =
     (case max_date ds of None \<Rightarrow> Some d
      | Some m \<Rightarrow> Some (if date_le m d then d else m))"

text \<open>Day number of a calendar date (days since 1970-01-01), for line 200.\<close>

definition days_from_civil :: "date \<Rightarrow> int" where
  "days_from_civil d =
     (let y = (if d_month d \<le> 2 then d_year d - 1 else d_year d);
          era = y div 400;
          yoe = y - era * 400;
          mp = (if 2 < d_month d then d_month d - 3 else d_month d + 9);
          doy = (153 * mp + 2) div 5 + d_day d - 1;
          doe = yoe * 365 + yoe div 4 - yoe div 100 + doy
      in era * 146097 + doe - 719468)"

definition lifetime_days :: "date option \<Rightarrow> date option \<Rightarrow> int option" where
  "lifetime_days fp lp =
     (case fp of None \<Rightarrow> None
      | Some f \<Rightarrow>
          (case lp of None \<Rightarrow> None
           | Some l \<Rightarrow> Some (days_from_civil l - days_from_civil f)))"

record customer_row =
  cm_customer_id :: "int option"
  total_revenue :: real
  transaction_frequency :: nat
  first_purchase :: "date option"
  last_purchase :: "date option"
  customer_lifetime :: "int option"
  avg_order_value :: "real option"
  customer_segment :: string

text \<open>
  Line 201. A float64 division by zero raises nothing in pandas and gives an infinity
  or NaN, neither of them a real number: \<open>None\<close> here.
\<close>

definition divide_cell :: "real \<Rightarrow> nat \<Rightarrow> real option" where
  "divide_cell r n = (if n = 0 then None else Some (r / real n))"

subsection \<open>Segmenter (lines 204 to 212)\<close>

definition categorize_customer :: "real \<Rightarrow> nat \<Rightarrow> string" where
  "categorize_customer trev freq =
     (if 10000 \<le> trev \<and> 10 \<le> freq then ''VIP''
      else if 5000 \<le> trev \<or> 5 \<le> freq then ''High Value''
      else if 1000 \<le> trev then ''Regular''
      else ''Low Value'')"

definition customer_key :: "enriched \<Rightarrow> int option" where
  "customer_key e = customer_id (sale (base e))"

definition customer_group :: "enriched list \<Rightarrow> int \<Rightarrow> customer_row" where
  "customer_group es k =
     (let g = group_rows customer_key es k;
          trev = nansum (map (\<lambda>e. revenue (base e)) g);
          freq = count_cells (map (\<lambda>e. transaction_id (sale (base e))) g);
          ds = stamps (map (\<lambda>e. transaction_date (sale (base e))) g)
      in
      \<lparr>cm_customer_id = Some k,
       total_revenue = trev,
       transaction_frequency = freq,
       first_purchase = min_date ds,
       last_purchase = max_date ds,
       customer_lifetime = lifetime_days (min_date ds) (max_date ds),
       avg_order_value = divide_cell trev freq,
       customer_segment = categorize_customer trev freq\<rparr>)"

definition customer_segments :: "enriched list \<Rightarrow> customer_row list" where
  "customer_segments es = map (customer_group es) (group_keys customer_key es)"

subsection \<open>The transform (lines 132 to 223)\<close>

record processed_data =
  out_sales_enhanced :: "enriched list"
  out_monthly_revenue :: "monthly_row list"
  out_product_performance :: "product_row list"
  out_customer_segments :: "customer_row list"

text \<open>
  \<open>transform_sales_data raw res\<close>: the call may end with \<open>res\<close>. \<open>Inl e\<close> is the
  empty dictionary that line 221 returns after an exception.
\<close>

definition transform_sales_data :: "raw_data \<Rightarrow> error + processed_data \<Rightarrow> bool" where
  "transform_sales_data raw res =
     (case sales_enhanced raw of
        Inl e \<Rightarrow> res = Inl e
      | Inr es \<Rightarrow>
          (case res of
             Inl e \<Rightarrow> False
           | Inr out \<Rightarrow>
               out_sales_enhanced out = es \<and>
               out_monthly_revenue out = monthly_revenue es \<and>
               product_performance es (out_product_performance out) \<and>
               out_customer_segments out = customer_segments es))"

subsection \<open>Predicates the properties are stated with\<close>

text \<open>The rows that lines 142 and 143 together keep.\<close>

definition retained :: "transaction \<Rightarrow> bool" where
  "retained t = (transaction_id t \<noteq> None \<and> positive_amount t)"


subsection \<open>Example inputs\<close>

definition jan15 :: date where
  "jan15 = \<lparr>d_year = 2024, d_month = 1, d_day = 15\<rparr>"

definition sale_a :: transaction where
  "sale_a = \<lparr>transaction_id = Some 1, transaction_date = Text (Some jan15),
     product_id = Some 2, customer_id = Some 7, quantity_sold = Some 1,
     unit_price = Some 100, total_amount = Some 100, sales_rep_id = Some 3,
     region_id = Some 1\<rparr>"

definition widget :: product where
  "widget = \<lparr>p_product_id = Some 1, product_name = Some ''Widget'', category_id = Some 1,
     category_name = Some ''Tools'', brand = None, cost_price = Some 10,
     list_price = Some 120\<rparr>"

definition gadget :: product where
  "gadget = \<lparr>p_product_id = Some 2, product_name = Some ''Gadget'', category_id = Some 1,
     category_name = Some ''Tools'', brand = None, cost_price = Some 50,
     list_price = Some 120\<rparr>"

definition alice :: customer where
  "alice = \<lparr>c_customer_id = Some 7, customer_name = Some ''Alice'', customer_type = None,
     c_region_id = Some 1, region_name = Some ''North'', signup_date = None\<rparr>"

text \<open>The joined frame of a run, empty when the run fails.\<close>

definition enriched_of :: "raw_data \<Rightarrow> enriched list" where
  "enriched_of raw = (case sales_enhanced raw of Inl e \<Rightarrow> [] | Inr es \<Rightarrow> es)"

text \<open>
  Two sales of one unit at 100. The first names product 2, which is row 1 of the product
  table; the second names product 99, which the table lacks.
\<close>

definition raw_position :: raw_data where
  "raw_position =
     \<lparr>sales = [sale_a, sale_a\<lparr>transaction_id := Some 2, product_id := Some 99\<rparr>],
      products = [widget, gadget], customers = [alice]\<rparr>"

text \<open>
  Three sales with revenue 100 each: of customer 7, of customer 8, whom the customer
  table lacks, and of no customer.
\<close>

definition raw_unmatched :: raw_data where
  "raw_unmatched =
     \<lparr>sales = [sale_a, sale_a\<lparr>transaction_id := Some 2, customer_id := Some 8\<rparr>,
        sale_a\<lparr>transaction_id := Some 3, customer_id := None\<rparr>],
      products = [widget, gadget], customers = [alice]\<rparr>"

text \<open>A sale with a transaction id and a positive amount, and no unit price.\<close>

definition raw_null_price :: raw_data where
  "raw_null_price =
     \<lparr>sales = [sale_a\<lparr>unit_price := None\<rparr>], products = [widget, gadget],
      customers = [alice]\<rparr>"


text \<open>
  A frame of four rows: amount 0, amount -50, no transaction id, and one row that is
  in order.
\<close>

definition frame_dirty :: "transaction frame" where
  "frame_dirty =
     range_index [sale_a\<lparr>total_amount := Some 0\<rparr>, sale_a\<lparr>total_amount := Some (- 50)\<rparr>,
       sale_a\<lparr>transaction_id := None\<rparr>, sale_a]"

section \<open>Properties\<close>

subsection \<open>The cleaner\<close>

lemma to_datetime_cell_fixed:
  "to_datetime_cell c = Inr c' \<Longrightarrow> to_datetime_cell c' = Inr c'"
  by (cases c rule: to_datetime_cell.cases) auto

lemma to_datetime_Cons:
  assumes "to_datetime ((i, t) # rs) = Inr out"
  obtains c rs' where "to_datetime_cell (transaction_date t) = Inr c"
    and "to_datetime rs = Inr rs'" and "out = (i, t\<lparr>transaction_date := c\<rparr>) # rs'"
  using assms by (auto split: sum.splits)

lemma to_datetime_parsed:
  "to_datetime df = Inr out \<Longrightarrow>
   \<forall>r \<in> set out. to_datetime_cell (transaction_date (snd r)) = Inr (transaction_date (snd r))"
proof (induction df arbitrary: out)
  case Nil
  then show ?case by simp
next
  case (Cons r rs)
  obtain i t where r: "r = (i, t)" by (cases r)
  from Cons.prems obtain c rs' where c: "to_datetime_cell (transaction_date t) = Inr c"
    and rs': "to_datetime rs = Inr rs'" and out: "out = (i, t\<lparr>transaction_date := c\<rparr>) # rs'"
    unfolding r by (rule to_datetime_Cons)
  from Cons.IH[OF rs'] to_datetime_cell_fixed[OF c] show ?case
    by (simp add: out)
qed

lemma to_datetime_fixed:
  "\<forall>r \<in> set xs. to_datetime_cell (transaction_date (snd r)) = Inr (transaction_date (snd r)) \<Longrightarrow>
   to_datetime xs = Inr xs"
  by (induction xs) auto

lemma to_datetime_columns:
  "to_datetime df = Inr out \<Longrightarrow>
   list_all2 (\<lambda>r r'. fst r' = fst r \<and> transaction_id (snd r') = transaction_id (snd r)
      \<and> total_amount (snd r') = total_amount (snd r)) df out"
proof (induction df arbitrary: out)
  case Nil
  then show ?case by simp
next
  case (Cons r rs)
  obtain i t where r: "r = (i, t)" by (cases r)
  from Cons.prems obtain c rs' where c: "to_datetime_cell (transaction_date t) = Inr c"
    and rs': "to_datetime rs = Inr rs'" and out: "out = (i, t\<lparr>transaction_date := c\<rparr>) # rs'"
    unfolding r by (rule to_datetime_Cons)
  from Cons.IH[OF rs'] show ?case
    by (simp add: out r)
qed

lemma filter_labels_list_all2:
  "list_all2 (\<lambda>r r'. fst r' = fst r \<and> P r = P r') xs ys \<Longrightarrow>
   map fst (filter P ys) = map fst (filter P xs)"
  by (induction xs ys rule: list_all2_induct) auto


lemma clean_filter:
  "filter_positive (dropna df) = filter (\<lambda>r. retained (snd r)) df"
  unfolding filter_positive_def dropna_def filter_filter
  by (rule filter_cong) (auto simp: retained_def positive_amount_def split: option.splits)

lemma cleaner_Inr:
  assumes "cleaner df = Inr out"
  obtains df' where "to_datetime df = Inr df'" and "out = filter (\<lambda>r. retained (snd r)) df'"
  using assms by (auto simp: cleaner_def clean_filter split: sum.splits)

lemma cleaner_idem: "cleaner df = Inr out \<Longrightarrow> cleaner out = Inr out"
proof -
  assume a: "cleaner df = Inr out"
  then obtain df' where d: "to_datetime df = Inr df'" and o: "out = filter (\<lambda>r. retained (snd r)) df'"
    by (rule cleaner_Inr)
  from to_datetime_parsed[OF d]
  have "\<forall>r \<in> set out. to_datetime_cell (transaction_date (snd r)) = Inr (transaction_date (snd r))"
    by (simp add: o)
  then have "to_datetime out = Inr out" by (rule to_datetime_fixed)
  moreover have "filter (\<lambda>r. retained (snd r)) out = out"
    by (simp add: o)
  ultimately show ?thesis by (simp add: cleaner_def clean_filter)
qed

lemma cleaner_invariant:
  assumes "cleaner df = Inr out"
  shows "\<forall>r \<in> set out. transaction_id (snd r) \<noteq> None \<and> (\<exists>a. total_amount (snd r) = Some a \<and> 0 < a)"
proof -
  from assms obtain df' where o: "out = filter (\<lambda>r. retained (snd r)) df'"
    by (rule cleaner_Inr)
  show ?thesis
    by (auto simp: o retained_def positive_amount_def split: option.splits)
qed

lemma cleaner_labels:
  assumes "cleaner df = Inr out"
  shows "map fst out = map fst (filter (\<lambda>r. retained (snd r)) df)"
proof -
  from assms obtain df' where d: "to_datetime df = Inr df'" and o: "out = filter (\<lambda>r. retained (snd r)) df'"
    by (rule cleaner_Inr)
  have "list_all2 (\<lambda>r r'. fst r' = fst r \<and> retained (snd r) = retained (snd r')) df df'"
    using to_datetime_columns[OF d]
    by (rule list_all2_mono) (simp add: retained_def positive_amount_def)
  from filter_labels_list_all2[OF this] show ?thesis by (simp add: o)
qed

subsection \<open>The joiner\<close>

lemma filter_key_distinct:
  "distinct (map kr rs) \<Longrightarrow>
   filter (\<lambda>r. kr r = k) rs = [] \<or> (\<exists>m. filter (\<lambda>r. kr r = k) rs = [m])"
proof (induction rs)
  case Nil
  then show ?case by simp
next
  case (Cons r rs)
  show ?case
  proof (cases "kr r = k")
    case True
    with Cons.prems have "k \<notin> kr ` set rs" by simp
    then have "\<forall>x \<in> set rs. kr x \<noteq> k" by (metis image_eqI)
    then have "filter (\<lambda>r. kr r = k) rs = []" by (simp add: filter_empty_conv)
    with True show ?thesis by simp
  next
    case False
    with Cons show ?thesis by simp
  qed
qed

lemma merge_left_fst:
  assumes "distinct (map kr rs)"
  shows "map fst (merge_left kl kr ls rs) = ls"
proof (induction ls)
  case Nil
  then show ?case by (simp add: merge_left_def)
next
  case (Cons l ls)
  from filter_key_distinct[OF assms, of "kl l"]
  have "map fst (case filter (\<lambda>r. kr r = kl l) rs of
          [] \<Rightarrow> [(l, None)] | ms \<Rightarrow> map (\<lambda>r. (l, Some r)) ms) = [l]"
    by (auto split: list.splits)
  with Cons.IH show ?case by (simp add: merge_left_def)
qed

lemma merge_left_member:
  assumes "(l, m) \<in> set (merge_left kl kr ls rs)"
  shows "l \<in> set ls" and "kl l \<notin> kr ` set rs \<Longrightarrow> m = None"
proof -
  from assms obtain l' where l': "l' \<in> set ls"
    and m: "(l, m) \<in> set (case filter (\<lambda>r. kr r = kl l') rs of
          [] \<Rightarrow> [(l', None)] | ms \<Rightarrow> map (\<lambda>r. (l', Some r)) ms)"
    by (auto simp: merge_left_def)
  from m have eq: "l = l'" by (auto split: list.splits)
  with l' show "l \<in> set ls" by simp
  assume "kl l \<notin> kr ` set rs"
  then have "\<forall>x \<in> set rs. kr x \<noteq> kl l" by (metis image_eqI)
  then have "filter (\<lambda>r. kr r = kl l) rs = []" by (simp add: filter_empty_conv)
  with m eq show "m = None" by simp
qed

lemma joiner_base:
  assumes "distinct (map p_product_id ps)" and "distinct (map c_customer_id cs)"
  shows "map base (joiner ds ps cs) = ds"
proof -
  have "map base (joiner ds ps cs) =
        map fst (map fst (merge_left (\<lambda>(d, p). customer_id (sale d)) c_customer_id
          (merge_left (\<lambda>d. product_id (sale d)) p_product_id ds ps) cs))"
    by (simp add: joiner_def case_prod_beta comp_def)
  also have "\<dots> = map fst (merge_left (\<lambda>d. product_id (sale d)) p_product_id ds ps)"
    by (simp only: merge_left_fst[OF assms(2)])
  also have "\<dots> = ds" by (rule merge_left_fst[OF assms(1)])
  finally show ?thesis .
qed

lemma joiner_member:
  assumes "e \<in> set (joiner ds ps cs)"
  shows "base e \<in> set ds"
    and "product_id (sale (base e)) \<notin> p_product_id ` set ps \<Longrightarrow> matched_product e = None"
    and "customer_id (sale (base e)) \<notin> c_customer_id ` set cs \<Longrightarrow> matched_customer e = None"
proof -
  from assms obtain d p c where e: "e = \<lparr>base = d, matched_product = p, matched_customer = c\<rparr>"
    and m2: "((d, p), c) \<in> set (merge_left (\<lambda>(d, p). customer_id (sale d)) c_customer_id
          (merge_left (\<lambda>d. product_id (sale d)) p_product_id ds ps) cs)"
    by (auto simp: joiner_def)
  from merge_left_member(1)[OF m2]
  have m1: "(d, p) \<in> set (merge_left (\<lambda>d. product_id (sale d)) p_product_id ds ps)" .
  from merge_left_member(1)[OF m1] show "base e \<in> set ds" by (simp add: e)
  show "product_id (sale (base e)) \<notin> p_product_id ` set ps \<Longrightarrow> matched_product e = None"
    using merge_left_member(2)[OF m1] by (simp add: e)
  show "customer_id (sale (base e)) \<notin> c_customer_id ` set cs \<Longrightarrow> matched_customer e = None"
    using merge_left_member(2)[OF m2] by (simp add: e)
qed

subsection \<open>Grouping\<close>

lemma set_map_filter_key:
  "set (List.map_filter key rows) = {k. \<exists>r \<in> set rows. key r = Some k}"
  by (induction rows) (auto split: option.splits)

lemma set_group_keys:
  "set (group_keys key rows) = {k. \<exists>r \<in> set rows. key r = Some k}"
  by (simp add: group_keys_def set_map_filter_key)


lemma sorted_group_keys: "sorted (group_keys key rows)"
  by (simp add: group_keys_def)

lemma map_filter_filter_key:
  assumes "\<And>r. key r \<noteq> None \<Longrightarrow> P r"
  shows "List.map_filter key (filter P rows) = List.map_filter key rows"
  using assms by (induction rows) (auto split: option.splits)

lemma group_keys_filter:
  assumes "\<And>r. key r \<noteq> None \<Longrightarrow> P r"
  shows "group_keys key (filter P rows) = group_keys key rows"
  by (simp add: group_keys_def map_filter_filter_key[of key P, OF assms])

lemma group_rows_filter:
  assumes "\<And>r. key r \<noteq> None \<Longrightarrow> P r"
  shows "group_rows key (filter P rows) k = group_rows key rows k"
  unfolding group_rows_def filter_filter
  by (rule filter_cong) (use assms in auto)

lemma nansum_append: "nansum (xs @ ys) = nansum xs + nansum ys"
  by (induction xs rule: nansum.induct) (simp_all add: add.assoc)




lemma sales_enhanced_Inr:
  assumes "sales_enhanced raw = Inr es"
  obtains df where "cleaner (range_index (sales raw)) = Inr df"
    and "es = joiner (feature_deriver df (products raw)) (products raw) (customers raw)"
  using assms by (auto simp: sales_enhanced_def split: sum.splits)

lemma sales_enhanced_ids:
  assumes "sales_enhanced raw = Inr es" and "e \<in> set es"
  shows "transaction_id (sale (base e)) \<noteq> None"
proof -
  from assms(1) obtain df where c: "cleaner (range_index (sales raw)) = Inr df"
    and es: "es = joiner (feature_deriver df (products raw)) (products raw) (customers raw)"
    by (rule sales_enhanced_Inr)
  from joiner_member(1)[OF assms(2)[unfolded es]]
  obtain r where r: "r \<in> set df" and b: "base e = derive_row (products raw) r"
    by (auto simp: feature_deriver_def)
  have "sale (base e) = snd r" by (cases r) (simp add: b derive_row_def)
  with cleaner_invariant[OF c] r show ?thesis by auto
qed

lemma count_cells_all:
  "\<forall>x \<in> set xs. x \<noteq> None \<Longrightarrow> count_cells xs = length xs"
  by (simp add: count_cells_def)

lemma group_rows_nonempty:
  "k \<in> set (group_keys key rows) \<Longrightarrow> group_rows key rows k \<noteq> []"
  by (auto simp: set_group_keys group_rows_def filter_empty_conv)

lemma customer_frequency:
  assumes "sales_enhanced raw = Inr es" and "c \<in> set (customer_segments es)"
  shows "1 \<le> transaction_frequency c
     \<and> avg_order_value c = Some (total_revenue c / real (transaction_frequency c))"
proof -
  from assms(2) obtain k where k: "k \<in> set (group_keys customer_key es)"
    and c: "c = customer_group es k"
    by (auto simp: customer_segments_def)
  let ?g = "group_rows customer_key es k"
  have "\<forall>e \<in> set ?g. transaction_id (sale (base e)) \<noteq> None"
    using sales_enhanced_ids[OF assms(1)] by (simp add: group_rows_def)
  then have "count_cells (map (\<lambda>e. transaction_id (sale (base e))) ?g) = length ?g"
    by (simp add: count_cells_all)
  then have f: "transaction_frequency c = length ?g"
    by (simp add: c customer_group_def Let_def)
  have "?g \<noteq> []" using k by (rule group_rows_nonempty)
  then have "1 \<le> length ?g" by (cases ?g) simp_all
  with f have "1 \<le> transaction_frequency c" by (simp only:)
  moreover have "avg_order_value c = divide_cell (total_revenue c) (transaction_frequency c)"
    by (simp add: c customer_group_def Let_def)
  ultimately show ?thesis by (simp add: divide_cell_def)
qed

lemma monthly_revenue_filter:
  assumes "\<And>e. monthly_key e \<noteq> None \<Longrightarrow> P e"
  shows "monthly_revenue (filter P es) = monthly_revenue es"
  by (simp add: monthly_revenue_def monthly_group_def
      group_keys_filter[of monthly_key P, OF assms] group_rows_filter[of monthly_key P, OF assms])

lemma customer_segments_filter:
  assumes "\<And>e. customer_key e \<noteq> None \<Longrightarrow> P e"
  shows "customer_segments (filter P es) = customer_segments es"
  by (simp add: customer_segments_def customer_group_def
      group_keys_filter[of customer_key P, OF assms] group_rows_filter[of customer_key P, OF assms])

lemma monthly_key_region: "monthly_key e \<noteq> None \<Longrightarrow> e_region_name e \<noteq> None"
  by (auto simp: monthly_key_def split: option.splits)

lemma null_keys_excluded:
  "monthly_revenue (filter (\<lambda>e. e_region_name e \<noteq> None) es) = monthly_revenue es
   \<and> customer_segments (filter (\<lambda>e. customer_id (sale (base e)) \<noteq> None) es) = customer_segments es
   \<and> (\<forall>g \<in> set (monthly_revenue es). m_year g \<noteq> None \<and> m_month g \<noteq> None \<and> m_region g \<noteq> None)
   \<and> (\<forall>c \<in> set (customer_segments es). cm_customer_id c \<noteq> None)"
proof -
  have 1: "monthly_revenue (filter (\<lambda>e. e_region_name e \<noteq> None) es) = monthly_revenue es"
    by (rule monthly_revenue_filter) (rule monthly_key_region)
  have 2: "customer_segments (filter (\<lambda>e. customer_id (sale (base e)) \<noteq> None) es) = customer_segments es"
    by (rule customer_segments_filter) (simp add: customer_key_def)
  have 3: "\<forall>g \<in> set (monthly_revenue es). m_year g \<noteq> None \<and> m_month g \<noteq> None \<and> m_region g \<noteq> None"
    by (auto simp: monthly_revenue_def monthly_group_def Let_def)
  have 4: "\<forall>c \<in> set (customer_segments es). cm_customer_id c \<noteq> None"
    by (auto simp: customer_segments_def customer_group_def Let_def)
  from 1 2 3 4 show ?thesis by blast
qed

lemma revenue_descending_rev_sort:
  "revenue_descending (rev (sort_key pp_revenue rs))"
proof -
  have "sorted (map pp_revenue (sort_key pp_revenue rs))" by (rule sorted_sort_key)
  then show ?thesis
    by (simp add: revenue_descending_def sorted_wrt_rev sorted_map)
qed

lemma product_performance_exists:
  "product_performance es (rev (sort_key pp_revenue (product_groups es)))"
  by (simp add: product_performance_def sort_values_revenue_def revenue_descending_rev_sort)




lemma revenue_cases:
  "revenue (derive_row ps r) =
     (case quantity_sold (snd r) of None \<Rightarrow> None
      | Some q \<Rightarrow> (case unit_price (snd r) of None \<Rightarrow> None | Some p \<Rightarrow> Some (real_of_int q * p)))"
  by (cases r) (simp add: derive_row_def mul_cell_def quantity_cell_def split: option.splits)

subsection \<open>The transform as a whole\<close>

text \<open>Every run ends, and it fails exactly when a date does not parse.\<close>

lemma transform_sales_data_total: "\<exists>res. transform_sales_data raw res"
proof (cases "sales_enhanced raw")
  case (Inl e)
  then have "transform_sales_data raw (Inl e)" by (simp add: transform_sales_data_def)
  then show ?thesis ..
next
  case (Inr es)
  then have "transform_sales_data raw
     (Inr \<lparr>out_sales_enhanced = es, out_monthly_revenue = monthly_revenue es,
        out_product_performance = rev (sort_key pp_revenue (product_groups es)),
        out_customer_segments = customer_segments es\<rparr>)"
    by (simp add: transform_sales_data_def product_performance_exists)
  then show ?thesis ..
qed

lemma transform_sales_data_fails:
  "transform_sales_data raw (Inl e) = (sales_enhanced raw = Inl e)"
  by (auto simp: transform_sales_data_def split: sum.splits)

section \<open>The claims\<close>

lemmas run_defs =
  enriched_of_def sales_enhanced_def cleaner_def range_index_def dropna_def
  filter_positive_def positive_amount_def feature_deriver_def derive_row_def joiner_def
  merge_left_def mul_cell_def sub_cell_def quantity_cell_def cost_price_at_def
  sale_a_def widget_def gadget_def alice_def jan15_def

text \<open>
  C1. The claim: profit_margin is total_amount less quantity_sold times the cost_price
  found by looking the row's product_id up in the product table, and null when the
  product_id has no match. Line 147 takes the cost_price of the product row that has the
  sale's index label instead. In \<open>raw_position\<close> the first sale (label 0) names
  product 2, whose cost_price is 50: the lookup gives 100 - 1 * 50 = 50, line 147 gives
  100 - 1 * 10 = 90 with the cost_price of product row 0. The second sale (label 1) names
  product 99, which the table lacks: the lookup gives null, line 147 gives
  100 - 1 * 50 = 50 with the cost_price of product row 1. Each triple below is the sale's
  product_id, the cost_price of the product the join of line 155 matched to it, and the
  profit_margin of line 147.
\<close>

theorem profit_margin_aligned_by_position:
  "map (\<lambda>e. (product_id (sale (base e)), map_option cost_price (matched_product e),
          profit_margin (base e))) (enriched_of raw_position) =
   [(Some 2, Some (Some 50), Some 90), (Some 99, None, Some 50)]"
  by (simp add: raw_position_def run_defs upt_rec)





text \<open>
  C3. The segmenter is a decision list in which the first rule that matches wins: VIP
  when total_revenue is at least 10000 and transaction_frequency at least 10; otherwise
  High Value when total_revenue is at least 5000 or transaction_frequency at least 5;
  otherwise Regular when total_revenue is at least 1000; otherwise Low Value. So
  (12000, 12) is VIP, (6000, 2) High Value, (1500, 1) Regular and (200, 1) Low Value. It
  is applied to the total_revenue and transaction_frequency of each row of
  CustomerMetrics.
\<close>

theorem categorize_customer_decision_list:
  "(categorize_customer r f = ''VIP'') = (10000 \<le> r \<and> 10 \<le> f)
   \<and> (categorize_customer r f = ''High Value'') =
       (\<not> (10000 \<le> r \<and> 10 \<le> f) \<and> (5000 \<le> r \<or> 5 \<le> f))
   \<and> (categorize_customer r f = ''Regular'') =
       (\<not> (10000 \<le> r \<and> 10 \<le> f) \<and> \<not> (5000 \<le> r \<or> 5 \<le> f) \<and> 1000 \<le> r)
   \<and> (categorize_customer r f = ''Low Value'') =
       (\<not> (10000 \<le> r \<and> 10 \<le> f) \<and> \<not> (5000 \<le> r \<or> 5 \<le> f) \<and> \<not> 1000 \<le> r)
   \<and> categorize_customer 12000 12 = ''VIP''
   \<and> categorize_customer 6000 2 = ''High Value''
   \<and> categorize_customer 1500 1 = ''Regular''
   \<and> categorize_customer 200 1 = ''Low Value''
   \<and> customer_segment (customer_group es k) =
       categorize_customer (total_revenue (customer_group es k))
         (transaction_frequency (customer_group es k))"
  by (simp add: categorize_customer_def customer_group_def Let_def)

text \<open>
  C4. When the product table has no product_id twice and the customer table no
  customer_id twice, the joiner gives exactly one row for each row it is given, in the
  same order: no transaction is dropped and none is repeated. A transaction whose
  product_id, or customer_id, is no key of the dimension table is kept, with the columns
  of that table null.
\<close>

theorem joiner_preserves_rows:
  assumes "distinct (map p_product_id ps)" and "distinct (map c_customer_id cs)"
  shows "map base (joiner ds ps cs) = ds
    \<and> length (joiner ds ps cs) = length ds
    \<and> (\<forall>e \<in> set (joiner ds ps cs).
         (product_id (sale (base e)) \<notin> p_product_id ` set ps \<longrightarrow>
            e_product_name e = None \<and> e_category_name e = None) \<and>
         (customer_id (sale (base e)) \<notin> c_customer_id ` set cs \<longrightarrow>
            e_region_name e = None))"
proof -
  have b: "map base (joiner ds ps cs) = ds" using assms by (rule joiner_base)
  then have "length (map base (joiner ds ps cs)) = length ds" by simp
  then have l: "length (joiner ds ps cs) = length ds" by simp
  have n: "\<forall>e \<in> set (joiner ds ps cs).
         (product_id (sale (base e)) \<notin> p_product_id ` set ps \<longrightarrow>
            e_product_name e = None \<and> e_category_name e = None) \<and>
         (customer_id (sale (base e)) \<notin> c_customer_id ` set cs \<longrightarrow>
            e_region_name e = None)"
    using joiner_member(2,3)
    by (auto simp: e_product_name_def e_category_name_def e_region_name_def)
  from b l n show ?thesis by blast
qed

theorem joiner_preserves_rows_witness:
  "distinct (map p_product_id (products raw_position))
   \<and> distinct (map c_customer_id (customers raw_position))
   \<and> length (joiner (feature_deriver (range_index (sales raw_position)) (products raw_position))
        (products raw_position) (customers raw_position)) = 2
   \<and> map e_product_name (joiner (feature_deriver (range_index (sales raw_position)) (products raw_position))
        (products raw_position) (customers raw_position)) = [Some ''Gadget'', None]"
proof -
  have p: "distinct (map p_product_id (products raw_position))"
    by (simp add: raw_position_def widget_def gadget_def)
  have c: "distinct (map c_customer_id (customers raw_position))"
    by (simp add: raw_position_def alice_def)
  have "length (feature_deriver (range_index (sales raw_position)) (products raw_position)) = 2"
    by (simp add: raw_position_def feature_deriver_def range_index_def)
  with joiner_preserves_rows[OF p c,
      of "feature_deriver (range_index (sales raw_position)) (products raw_position)"]
  have l: "length (joiner (feature_deriver (range_index (sales raw_position)) (products raw_position))
        (products raw_position) (customers raw_position)) = 2"
    by (simp only:)
  have n: "map e_product_name (joiner (feature_deriver (range_index (sales raw_position)) (products raw_position))
        (products raw_position) (customers raw_position)) = [Some ''Gadget'', None]"
    by (simp add: raw_position_def run_defs e_product_name_def upt_rec)
  from p c l n show ?thesis by (simp only:)
qed

text \<open>
  C5, as claimed: revenue is never null for a retained row. The cleaner drops nulls of
  transaction_id and total_amount only, so a sale with a null unit_price (or
  quantity_sold) is retained, and line 146 gives it a null revenue. The row of
  \<open>raw_null_price\<close> has transaction_id 1 and total_amount 100, and no unit_price.
\<close>

theorem revenue_null_when_unit_price_null:
  "map (\<lambda>e. (transaction_id (sale (base e)), total_amount (sale (base e)),
       unit_price (sale (base e)), revenue (base e))) (enriched_of raw_null_price) =
   [(Some 1, Some 100, None, None)]"
  by (simp add: raw_null_price_def run_defs upt_rec)

text \<open>
  C5, amended: in every row of a run's joined frame, revenue is quantity_sold times
  unit_price when both are present, and null when either is null; and the revenue
  column of the feature deriver is the same whatever the product table is, so it
  depends on no dimension table.
\<close>

theorem revenue_from_row_alone:
  assumes "sales_enhanced raw = Inr es"
  shows "(\<forall>e \<in> set es. revenue (base e) =
            (case quantity_sold (sale (base e)) of None \<Rightarrow> None
             | Some q \<Rightarrow>
                 (case unit_price (sale (base e)) of None \<Rightarrow> None
                  | Some p \<Rightarrow> Some (real_of_int q * p))))
    \<and> map revenue (feature_deriver df ps) = map revenue (feature_deriver df ps')"
proof -
  from assms obtain df0 where
    es: "es = joiner (feature_deriver df0 (products raw)) (products raw) (customers raw)"
    by (rule sales_enhanced_Inr)
  have 1: "revenue (base e) =
            (case quantity_sold (sale (base e)) of None \<Rightarrow> None
             | Some q \<Rightarrow>
                 (case unit_price (sale (base e)) of None \<Rightarrow> None
                  | Some p \<Rightarrow> Some (real_of_int q * p)))" if "e \<in> set es" for e
  proof -
    from joiner_member(1)[OF that[unfolded es]]
    obtain r where b: "base e = derive_row (products raw) r"
      by (auto simp: feature_deriver_def)
    have s: "sale (base e) = snd r" by (cases r) (simp add: b derive_row_def)
    show ?thesis unfolding s unfolding b by (rule revenue_cases)
  qed
  have 2: "map revenue (feature_deriver df ps) = map revenue (feature_deriver df ps')"
    by (simp add: feature_deriver_def derive_row_def case_prod_beta)
  from 1 2 show ?thesis by blast
qed

theorem revenue_from_row_alone_witness:
  "sales_enhanced raw_position = Inr (enriched_of raw_position)
   \<and> map (\<lambda>e. revenue (base e)) (enriched_of raw_position) = [Some 100, Some 100]
   \<and> map (\<lambda>e. case quantity_sold (sale (base e)) of None \<Rightarrow> None
             | Some q \<Rightarrow>
                 (case unit_price (sale (base e)) of None \<Rightarrow> None
                  | Some p \<Rightarrow> Some (real_of_int q * p))) (enriched_of raw_position) =
       [Some 100, Some 100]"
proof -
  have s: "sales_enhanced raw_position = Inr (enriched_of raw_position)"
    by (simp add: raw_position_def run_defs upt_rec)
  have v: "map (\<lambda>e. revenue (base e)) (enriched_of raw_position) = [Some 100, Some 100]"
    by (simp add: raw_position_def run_defs upt_rec)
  from revenue_from_row_alone[OF s]
  have "map (\<lambda>e. revenue (base e)) (enriched_of raw_position) =
        map (\<lambda>e. case quantity_sold (sale (base e)) of None \<Rightarrow> None
             | Some q \<Rightarrow>
                 (case unit_price (sale (base e)) of None \<Rightarrow> None
                  | Some p \<Rightarrow> Some (real_of_int q * p))) (enriched_of raw_position)"
    by (intro map_cong refl) blast
  with s v show ?thesis by (simp only:)
qed





text \<open>
  C7. Every row of the cleaner's output has a transaction_id, and a total_amount that is
  present and positive. The labels of the output are, in order, the labels of the input
  rows with a transaction_id and a positive total_amount: a row with total_amount 0 or
  -50, or without a transaction_id, is not in the output.
\<close>

theorem cleaner_output_invariant:
  assumes "cleaner df = Inr out"
  shows "(\<forall>r \<in> set out. transaction_id (snd r) \<noteq> None
            \<and> (\<exists>a. total_amount (snd r) = Some a \<and> 0 < a))
    \<and> map fst out = map fst (filter (\<lambda>r. retained (snd r)) df)"
  using cleaner_invariant[OF assms] cleaner_labels[OF assms] by blast

theorem cleaner_output_invariant_witness:
  "cleaner frame_dirty = Inr [(3, sale_a\<lparr>transaction_date := Stamp jan15\<rparr>)]
   \<and> map fst (filter (\<lambda>r. retained (snd r)) frame_dirty) = [3]
   \<and> map (\<lambda>r. total_amount (snd r)) frame_dirty = [Some 0, Some (- 50), Some 100, Some 100]
   \<and> map (\<lambda>r. transaction_id (snd r)) frame_dirty = [Some 1, Some 1, None, Some 1]"
proof -
  have c: "cleaner frame_dirty = Inr [(3, sale_a\<lparr>transaction_date := Stamp jan15\<rparr>)]"
    by (simp add: frame_dirty_def cleaner_def range_index_def dropna_def filter_positive_def
        positive_amount_def sale_a_def upt_rec)
  from cleaner_output_invariant[OF c]
  have l: "map fst (filter (\<lambda>r. retained (snd r)) frame_dirty) = [3]" by simp
  have a: "map (\<lambda>r. total_amount (snd r)) frame_dirty = [Some 0, Some (- 50), Some 100, Some 100]"
    by (simp add: frame_dirty_def range_index_def sale_a_def upt_rec)
  have i: "map (\<lambda>r. transaction_id (snd r)) frame_dirty = [Some 1, Some 1, None, Some 1]"
    by (simp add: frame_dirty_def range_index_def sale_a_def upt_rec)
  from c l a i show ?thesis by blast
qed

text \<open>
  C8. The cleaner is idempotent: run on its own output, it returns that output
  unchanged.
\<close>

theorem cleaner_idempotent:
  "cleaner df = Inr out \<Longrightarrow> cleaner out = Inr out"
  by (rule cleaner_idem)

theorem cleaner_idempotent_witness:
  "cleaner frame_dirty = Inr [(3, sale_a\<lparr>transaction_date := Stamp jan15\<rparr>)]
   \<and> cleaner [(3, sale_a\<lparr>transaction_date := Stamp jan15\<rparr>)] =
       Inr [(3, sale_a\<lparr>transaction_date := Stamp jan15\<rparr>)]"
proof -
  have c: "cleaner frame_dirty = Inr [(3, sale_a\<lparr>transaction_date := Stamp jan15\<rparr>)]"
    by (simp add: frame_dirty_def cleaner_def range_index_def dropna_def filter_positive_def
        positive_amount_def sale_a_def upt_rec)
  from c cleaner_idempotent[OF c] show ?thesis by blast
qed

text \<open>
  C9. In the customer metrics of a run, every group has transaction_frequency at least
  1, so the division of line 201 is by a number that is not zero, and avg_order_value is
  total_revenue divided by transaction_frequency.
\<close>

theorem customer_frequency_positive:
  assumes "sales_enhanced raw = Inr es"
  shows "\<forall>c \<in> set (customer_segments es).
           1 \<le> transaction_frequency c
           \<and> avg_order_value c = Some (total_revenue c / real (transaction_frequency c))"
  using customer_frequency[OF assms] by blast

theorem customer_frequency_positive_witness:
  "sales_enhanced raw_position = Inr (enriched_of raw_position)
   \<and> map (\<lambda>c. (cm_customer_id c, total_revenue c, transaction_frequency c))
        (customer_segments (enriched_of raw_position)) = [(Some 7, 200, 2)]
   \<and> map avg_order_value (customer_segments (enriched_of raw_position)) = [Some 100]"
proof -
  have s: "sales_enhanced raw_position = Inr (enriched_of raw_position)"
    by (simp add: raw_position_def run_defs upt_rec)
  have v: "map (\<lambda>c. (cm_customer_id c, total_revenue c, transaction_frequency c))
        (customer_segments (enriched_of raw_position)) = [(Some 7, 200, 2)]"
    by code_simp
  from customer_frequency_positive[OF s]
  have "map avg_order_value (customer_segments (enriched_of raw_position)) =
        map (\<lambda>c. Some (total_revenue c / real (transaction_frequency c)))
          (customer_segments (enriched_of raw_position))"
    by (intro map_cong refl) blast
  also have "\<dots> = map (\<lambda>t. Some (fst (snd t) / real (snd (snd t))))
      (map (\<lambda>c. (cm_customer_id c, total_revenue c, transaction_frequency c))
        (customer_segments (enriched_of raw_position)))"
    by (simp add: comp_def)
  also have "\<dots> = [Some 100]" by (simp only: v) simp
  finally have a: "map avg_order_value (customer_segments (enriched_of raw_position)) = [Some 100]" .
  from s v a show ?thesis by blast
qed

text \<open>
  C10. A row whose region_name is null adds to no row of MonthlyRevenue, and a row whose
  customer_id is null to no row of the customer metrics: removing such rows from the
  joined frame changes neither table. The key columns of both tables are never null.
\<close>

theorem null_group_keys_excluded:
  "monthly_revenue (filter (\<lambda>e. e_region_name e \<noteq> None) es) = monthly_revenue es
   \<and> customer_segments (filter (\<lambda>e. customer_id (sale (base e)) \<noteq> None) es) =
       customer_segments es
   \<and> (\<forall>g \<in> set (monthly_revenue es).
         m_year g \<noteq> None \<and> m_month g \<noteq> None \<and> m_region g \<noteq> None)
   \<and> (\<forall>c \<in> set (customer_segments es). cm_customer_id c \<noteq> None)"
  by (rule null_keys_excluded)

theorem null_group_keys_excluded_witness:
  "map (\<lambda>e. (customer_id (sale (base e)), e_region_name e)) (enriched_of raw_unmatched) =
     [(Some 7, Some ''North''), (Some 8, None), (None, None)]
   \<and> map (\<lambda>g. (m_year g, m_month g, m_region g, m_transaction_count g))
       (monthly_revenue (enriched_of raw_unmatched)) = [(Some 2024, Some 1, Some ''North'', 1)]
   \<and> map (\<lambda>c. (cm_customer_id c, transaction_frequency c))
       (customer_segments (enriched_of raw_unmatched)) = [(Some 7, 1), (Some 8, 1)]
   \<and> monthly_revenue (filter (\<lambda>e. e_region_name e \<noteq> None) (enriched_of raw_unmatched)) =
       monthly_revenue (enriched_of raw_unmatched)
   \<and> customer_segments (filter (\<lambda>e. customer_id (sale (base e)) \<noteq> None)
         (enriched_of raw_unmatched)) = customer_segments (enriched_of raw_unmatched)"
proof -
  have 1: "map (\<lambda>e. (customer_id (sale (base e)), e_region_name e)) (enriched_of raw_unmatched) =
     [(Some 7, Some ''North''), (Some 8, None), (None, None)]"
    by code_simp
  have 2: "map (\<lambda>g. (m_year g, m_month g, m_region g, m_transaction_count g))
       (monthly_revenue (enriched_of raw_unmatched)) = [(Some 2024, Some 1, Some ''North'', 1)]"
    by code_simp
  have 3: "map (\<lambda>c. (cm_customer_id c, transaction_frequency c))
       (customer_segments (enriched_of raw_unmatched)) = [(Some 7, 1), (Some 8, 1)]"
    by code_simp
  from 1 2 3 null_group_keys_excluded[of "enriched_of raw_unmatched"] show ?thesis by blast
qed

end
